theory Spec2Isabelle
  imports Complex_Main "HOL-Library.Word"
begin

section \<open>Values shared by the backend modules\<close>

text \<open>
  Python exceptions are values. Only the classes that the modelled code can meet are
  listed; all of them derive from Python's \<open>Exception\<close>.
\<close>

datatype py_exception =
    ValueError | IndexError | KeyError | ZeroDivisionError | OSError
  | CvError | InvalidArgumentError

definition bindE :: "'e + 'a \<Rightarrow> ('a \<Rightarrow> 'e + 'b) \<Rightarrow> 'e + 'b" where
  "bindE m f = (case m of Inl e \<Rightarrow> Inl e | Inr x \<Rightarrow> f x)"

text \<open>
  A 2-D \<open>uint8\<close> numpy array is a list of rows of 8-bit words. Float arrays hold reals:
  the rounding of \<open>float32\<close> and \<open>float64\<close> is not modelled.
\<close>

type_synonym uint8 = "8 word"
type_synonym img = "uint8 list list"

definition np_shape :: "'a list list \<Rightarrow> nat \<times> nat" where
  "np_shape a = (length a, if a = [] then 0 else length (hd a))"

text \<open>Python's \<open>int(x)\<close> on a float: truncation towards zero.\<close>

definition py_int :: "real \<Rightarrow> int" where
  "py_int x = (if 0 \<le> x then \<lfloor>x\<rfloor> else \<lceil>x\<rceil>)"

section \<open>The imaging libraries and the standard output, as parameters\<close>

text \<open>
  \<open>preprocessing.py\<close> calls PIL, numpy, scipy and OpenCV, and prints. The elementary
  numpy and scipy operations are written out below. The OpenCV and PIL calls are fields
  of a record \<open>imglib\<close>, and so is \<open>print\<close>: every theorem holds for each value of that
  record, and what a theorem needs from a call is one of its hypotheses. Each call may
  raise; \<open>print\<close> does when the standard output is closed or broken.
\<close>

record pil_image =
  pil_mode :: string
  pil_size :: "nat \<times> nat"
  pil_bytes :: "uint8 list"

text \<open>One row of the \<open>stats\<close> table of \<open>connectedComponentsWithStats\<close> (five columns).\<close>

record cc_stat =
  cc_left :: nat
  cc_top :: nat
  cc_width :: nat
  cc_height :: nat
  cc_area :: nat

record imglib =
  pil_convert :: "pil_image \<Rightarrow> string \<Rightarrow> py_exception + pil_image"
  np_array :: "pil_image \<Rightarrow> py_exception + img"
  cv2_calcHist :: "img \<Rightarrow> py_exception + nat list"
  cv2_CLAHE_apply :: "real \<Rightarrow> nat \<times> nat \<Rightarrow> img \<Rightarrow> py_exception + img"
  cv2_threshold :: "img \<Rightarrow> real \<Rightarrow> real \<Rightarrow> nat \<Rightarrow> py_exception + (real \<times> img)"
  cv2_adaptiveThreshold ::
    "img \<Rightarrow> real \<Rightarrow> nat \<Rightarrow> nat \<Rightarrow> nat \<Rightarrow> real \<Rightarrow> py_exception + img"
  cv2_connectedComponentsWithStats ::
    "img \<Rightarrow> nat \<Rightarrow> py_exception + (nat \<times> nat list list \<times> cc_stat list)"
  cv2_getStructuringElement :: "nat \<Rightarrow> nat \<times> nat \<Rightarrow> py_exception + img"
  cv2_morphologyEx :: "img \<Rightarrow> nat \<Rightarrow> img \<Rightarrow> py_exception + img"
  cv2_resize :: "img \<Rightarrow> int \<times> int \<Rightarrow> nat \<Rightarrow> py_exception + img"
  cv2_warpAffine :: "img \<Rightarrow> real list list \<Rightarrow> nat \<times> nat \<Rightarrow> py_exception + img"
  cv2_GaussianBlur :: "img \<Rightarrow> nat \<times> nat \<Rightarrow> real \<Rightarrow> py_exception + img"
  py_print :: "py_exception \<Rightarrow> py_exception + unit"

text \<open>The OpenCV flag values that the source passes.\<close>

definition THRESH_BINARY :: nat where "THRESH_BINARY = 0"
definition THRESH_OTSU :: nat where "THRESH_OTSU = 8"
definition ADAPTIVE_THRESH_GAUSSIAN_C :: nat where "ADAPTIVE_THRESH_GAUSSIAN_C = 1"
definition MORPH_ELLIPSE :: nat where "MORPH_ELLIPSE = 2"
definition MORPH_CLOSE :: nat where "MORPH_CLOSE = 3"
definition INTER_CUBIC :: nat where "INTER_CUBIC = 2"
definition INTER_AREA :: nat where "INTER_AREA = 3"

subsection \<open>numpy and scipy operations\<close>

text \<open>\<open>np.argmax\<close>: the first index of the maximum; \<open>ValueError\<close> on an empty array.\<close>

definition np_argmax :: "'a::linorder list \<Rightarrow> py_exception + nat" where
  "np_argmax xs =
     (if xs = [] then Inl ValueError
      else Inr (length (takeWhile (\<lambda>x. x \<noteq> fold max xs (hd xs)) xs)))"

definition cv2_countNonZero :: "img \<Rightarrow> nat" where
  "cv2_countNonZero a = length (filter (\<lambda>p. p \<noteq> 0) (concat a))"

text \<open>\<open>a.max()\<close>: \<open>ValueError\<close> on an array without elements.\<close>

definition np_max :: "img \<Rightarrow> py_exception + uint8" where
  "np_max a = (if concat a = [] then Inl ValueError else Inr (fold max (concat a) 0))"

text \<open>A slice \<open>xs[lo:hi]\<close> with Python's treatment of negative and oversized bounds.\<close>

definition slice_bound :: "int \<Rightarrow> int \<Rightarrow> int" where
  "slice_bound i n = (if i < 0 then max 0 (i + n) else min i n)"

definition np_slice :: "int \<Rightarrow> int \<Rightarrow> 'a list \<Rightarrow> 'a list" where
  "np_slice lo hi xs =
     (let n = int (length xs)
      in drop (nat (slice_bound lo n)) (take (nat (slice_bound hi n)) xs))"

text \<open>
  \<open>canvas[y0:y1, x0:x1] = src\<close>: the value is broadcast to the shape of the target
  region (each of its dimensions equals the target's or is 1), otherwise \<open>ValueError\<close>.
\<close>

definition np_assign_block :: "img \<Rightarrow> int \<Rightarrow> int \<Rightarrow> int \<Rightarrow> int \<Rightarrow> img \<Rightarrow> py_exception + img" where
  "np_assign_block canvas y0 y1 x0 x1 src =
     (let (ch, cw) = np_shape canvas;
          ya = nat (slice_bound y0 (int ch)); yb = nat (slice_bound y1 (int ch));
          xa = nat (slice_bound x0 (int cw)); xb = nat (slice_bound x1 (int cw));
          th = yb - ya; tw = xb - xa;
          (sh, sw) = np_shape src
      in if (sh = th \<or> sh = 1) \<and> (sw = tw \<or> sw = 1)
         then Inr (map (\<lambda>y. map (\<lambda>x.
                 if ya \<le> y \<and> y < yb \<and> xa \<le> x \<and> x < xb
                 then src ! (if sh = 1 then 0 else y - ya) ! (if sw = 1 then 0 else x - xa)
                 else canvas ! y ! x) [0..<length (canvas ! y)]) [0..<length canvas])
         else Inl ValueError)"

text \<open>
  \<open>scipy.ndimage.center_of_mass\<close> of a 2-D array: the sums of \<open>y * a[y, x]\<close> and of
  \<open>x * a[y, x]\<close>, each divided by the sum of the array. On a sum of 0 the result is
  \<open>(nan, nan)\<close>, with a warning and no exception: that is \<open>None\<close>.
\<close>

definition array_sum :: "img \<Rightarrow> nat" where
  "array_sum a = (\<Sum>y\<leftarrow>[0..<length a]. \<Sum>x\<leftarrow>[0..<length (a ! y)]. unat (a ! y ! x))"

definition moment_y :: "img \<Rightarrow> nat" where
  "moment_y a = (\<Sum>y\<leftarrow>[0..<length a]. \<Sum>x\<leftarrow>[0..<length (a ! y)]. y * unat (a ! y ! x))"

definition moment_x :: "img \<Rightarrow> nat" where
  "moment_x a = (\<Sum>y\<leftarrow>[0..<length a]. \<Sum>x\<leftarrow>[0..<length (a ! y)]. x * unat (a ! y ! x))"

definition center_of_mass :: "img \<Rightarrow> (real \<times> real) option" where
  "center_of_mass a =
     (if array_sum a = 0 then None
      else Some (real (moment_y a) / real (array_sum a), real (moment_x a) / real (array_sum a)))"

text \<open>\<open>x.astype(np.uint8)\<close> on a float: truncation, then the low eight bits.\<close>

definition astype_uint8 :: "real \<Rightarrow> uint8" where
  "astype_uint8 x = word_of_int (py_int x)"

text \<open>The result array: its dtype and its values, indexed batch, row, column, channel.\<close>

datatype dtype = UInt8 | Float32

record tensor =
  t_dtype :: dtype
  t_data :: "real list list list list"

text \<open>\<open>np.zeros((1, 28, 28, 1), dtype=np.float32)\<close>\<close>

definition zeros_1_28_28_1 :: tensor where
  "zeros_1_28_28_1 = \<lparr>t_dtype = Float32, t_data = [replicate 28 (replicate 28 [0])]\<rparr>"

section \<open>preprocessing.py: resize dimensions and canvas placement\<close>

text \<open>
  Lines 260-273 of \<open>preprocess_for_mnist\<close>: the new size of the digit region. The
  division \<open>digit_w / digit_h\<close> raises \<open>ZeroDivisionError\<close> on a region of height 0, and
  so does \<open>target_size / aspect_ratio\<close> on a ratio of 0.
\<close>

definition target_size :: int where
  "target_size = 20"

definition new_dimensions :: "nat \<Rightarrow> nat \<Rightarrow> py_exception + (int \<times> int)" where
  "new_dimensions digit_h digit_w =
     (if digit_h = 0 then Inl ZeroDivisionError
      else let aspect_ratio = real digit_w / real digit_h in
        if digit_h > digit_w
        then Inr (target_size, max 1 (py_int (real_of_int target_size * aspect_ratio)))
        else if aspect_ratio = 0 then Inl ZeroDivisionError
        else Inr (max 1 (py_int (real_of_int target_size / aspect_ratio)), target_size))"

text \<open>Lines 286-295: the offsets and the size of the copied region, as (y, x) pairs.\<close>

definition canvas_offsets :: "int \<Rightarrow> int \<Rightarrow> int \<times> int" where
  "canvas_offsets new_h new_w = (max 0 ((28 - new_h) div 2), max 0 ((28 - new_w) div 2))"

definition copy_region :: "int \<Rightarrow> int \<Rightarrow> int \<times> int" where
  "copy_region new_h new_w =
     (let (y_offset, x_offset) = canvas_offsets new_h new_w
      in (min new_h (28 - y_offset), min new_w (28 - x_offset)))"

section \<open>preprocessing.py: the pipeline\<close>

text \<open>\<open>enhance_contrast\<close>, lines 132-138: CLAHE with clip limit 2.0 on a 4 x 4 grid.\<close>

definition enhance_contrast :: "imglib \<Rightarrow> img \<Rightarrow> py_exception + img" where
  "enhance_contrast L gray_img = cv2_CLAHE_apply L 2 (4, 4) gray_img"

text \<open>
  \<open>adaptive_threshold\<close>, lines 141-161. \<open>white_ratio\<close> is \<open>np.sum(otsu > 0) / otsu.size\<close>;
  on an array without elements numpy yields \<open>nan\<close> (here \<open>None\<close>), and both comparisons
  with \<open>nan\<close> are false.
\<close>

definition white_ratio :: "img \<Rightarrow> real option" where
  "white_ratio otsu =
     (if length (concat otsu) = 0 then None
      else Some (real (length (filter (\<lambda>p. p > 0) (concat otsu))) / real (length (concat otsu))))"

definition otsu_failed :: "img \<Rightarrow> bool" where
  "otsu_failed otsu =
     (case white_ratio otsu of None \<Rightarrow> False | Some r \<Rightarrow> r < 1 / 100 \<or> r > 9 / 10)"

definition adaptive_threshold :: "imglib \<Rightarrow> img \<Rightarrow> py_exception + img" where
  "adaptive_threshold L gray_img =
     bindE (cv2_threshold L gray_img 0 255 (THRESH_BINARY + THRESH_OTSU)) (\<lambda>(retval, otsu).
       if otsu_failed otsu
       then cv2_adaptiveThreshold L gray_img 255 ADAPTIVE_THRESH_GAUSSIAN_C THRESH_BINARY 11 2
       else Inr otsu)"

text \<open>
  \<open>remove_small_components\<close>, lines 60-85. The parameter \<open>min_size\<close> is never read.
  \<open>result[labels == largest_label] = 255\<close> raises \<open>IndexError\<close> when the mask has
  another shape than \<open>result\<close>.
\<close>

definition remove_small_components :: "imglib \<Rightarrow> img \<Rightarrow> nat \<Rightarrow> py_exception + img" where
  "remove_small_components L binary_img min_size =
     bindE (cv2_connectedComponentsWithStats L binary_img 8) (\<lambda>(num_labels, labels, stats).
       if num_labels \<le> 1 then Inr binary_img
       else let areas = map cc_area (drop 1 stats) in
         if length areas = 0 then Inr binary_img
         else bindE (np_argmax areas) (\<lambda>k.
           let largest_label = 1 + k in
           if np_shape labels \<noteq> np_shape binary_img then Inl IndexError
           else Inr (map (map (\<lambda>l. if l = largest_label then 255 else 0)) labels)))"

text \<open>
  \<open>center_digit_by_mass\<close>, lines 164-183. The matrix is
  \<open>[[1, 0, shift_x], [0, 1, shift_y]]\<close>, the size (28, 28), the border constant 0.
\<close>

definition shift_matrix :: "int \<Rightarrow> int \<Rightarrow> real list list" where
  "shift_matrix shift_x shift_y = [[1, 0, of_int shift_x], [0, 1, of_int shift_y]]"

definition center_digit_by_mass :: "imglib \<Rightarrow> img \<Rightarrow> py_exception + img" where
  "center_digit_by_mass L img_28x28 =
     (case center_of_mass img_28x28 of
        None \<Rightarrow> Inr img_28x28
      | Some (cy, cx) \<Rightarrow>
          let shift_x = py_int (27 / 2 - cx);
              shift_y = py_int (27 / 2 - cy)
          in cv2_warpAffine L img_28x28 (shift_matrix shift_x shift_y) (28, 28))"

text \<open>
  Lines 206-210: grayscale conversion and \<open>np.array(image)\<close>. The source's variable
  \<open>image\<close> is \<open>pil\<close> here.
\<close>

definition load_gray :: "imglib \<Rightarrow> pil_image \<Rightarrow> py_exception + img" where
  "load_gray L pil =
     bindE (if pil_mode pil \<noteq> ''L'' then pil_convert L pil ''L'' else Inr pil)
       (\<lambda>pil. np_array L pil)"

text \<open>Lines 214-219: the modal intensity is the background; a light one is inverted.\<close>

definition correct_polarity :: "imglib \<Rightarrow> img \<Rightarrow> py_exception + img" where
  "correct_polarity L img_array =
     bindE (cv2_calcHist L img_array) (\<lambda>hist.
     bindE (np_argmax hist) (\<lambda>background_val.
       if background_val > 127 then Inr (map (map (\<lambda>p. 255 - p)) img_array)
       else Inr img_array))"

text \<open>Lines 222-228: contrast, threshold, noise removal (\<open>min_size\<close> at its default 50).\<close>

definition binarize :: "imglib \<Rightarrow> img \<Rightarrow> py_exception + img" where
  "binarize L img_array =
     bindE (enhance_contrast L img_array) (\<lambda>img_enhanced.
     bindE (adaptive_threshold L img_enhanced) (\<lambda>binary.
       remove_small_components L binary 50))"

text \<open>Lines 236-237: closing with a 2 x 2 elliptical kernel.\<close>

definition close_gaps :: "imglib \<Rightarrow> img \<Rightarrow> py_exception + img" where
  "close_gaps L binary =
     bindE (cv2_getStructuringElement L MORPH_ELLIPSE (2, 2)) (\<lambda>kernel_close.
       cv2_morphologyEx L binary MORPH_CLOSE kernel_close)"

text \<open>
  Lines 240-257: \<open>coords\<close> are the (y, x) of the pixels above 0; the bounding box gets a
  padding of 2 and is clamped to the shape of \<open>img_array\<close>. \<open>None\<close> is \<open>len(coords) == 0\<close>.
\<close>

definition np_where_positive :: "img \<Rightarrow> (nat \<times> nat) list" where
  "np_where_positive binary =
     concat (map (\<lambda>y. map (\<lambda>x. (y, x))
       (filter (\<lambda>x. binary ! y ! x > 0) [0..<length (binary ! y)])) [0..<length binary])"

definition extract_digit :: "img \<Rightarrow> img \<Rightarrow> img option" where
  "extract_digit img_array binary =
     (let coords = np_where_positive binary in
      if length coords = 0 then None
      else
        let y_min = int (Min (set (map fst coords))); x_min = int (Min (set (map snd coords)));
            y_max = int (Max (set (map fst coords))); x_max = int (Max (set (map snd coords)));
            padding = 2;
            (h, w) = np_shape img_array;
            y_min = max 0 (y_min - padding);
            x_min = max 0 (x_min - padding);
            y_max = min (int h - 1) (y_max + padding);
            x_max = min (int w - 1) (x_max + padding)
        in Some (map (np_slice x_min (x_max + 1)) (np_slice y_min (y_max + 1) binary)))"

text \<open>Lines 260-297: resize keeping the aspect ratio, paste on a zeroed 28 x 28 canvas.\<close>

definition place_on_canvas :: "imglib \<Rightarrow> img \<Rightarrow> py_exception + img" where
  "place_on_canvas L digit =
     (let (digit_h, digit_w) = np_shape digit in
      bindE (new_dimensions digit_h digit_w) (\<lambda>(new_h, new_w).
        let interpolation =
              (if int digit_h > new_h \<or> int digit_w > new_w then INTER_AREA else INTER_CUBIC)
        in bindE (cv2_resize L digit (new_w, new_h) interpolation) (\<lambda>digit_resized.
          let canvas = replicate 28 (replicate 28 0);
              (y_offset, x_offset) = canvas_offsets new_h new_w;
              (copy_h, copy_w) = copy_region new_h new_w
          in np_assign_block canvas y_offset (y_offset + copy_h) x_offset (x_offset + copy_w)
               (map (np_slice 0 copy_w) (np_slice 0 copy_h digit_resized)))))"

text \<open>Lines 306-307: the maximum is mapped to 255, in \<open>float32\<close>, and cast back.\<close>

definition renormalize :: "img \<Rightarrow> py_exception + img" where
  "renormalize canvas =
     bindE (np_max canvas) (\<lambda>m.
       if m > 0
       then Inr (map (map (\<lambda>p. astype_uint8 (real (unat p) / real (unat m) * 255))) canvas)
       else Inr canvas)"

text \<open>Lines 310-313: division by 255.0, then a batch axis in front and a channel axis behind.\<close>

definition to_tensor :: "img \<Rightarrow> tensor" where
  "to_tensor canvas =
     \<lparr>t_dtype = Float32, t_data = [map (map (\<lambda>p. [real (unat p) / 255])) canvas]\<rparr>"

text \<open>Lines 300-315: mass centring, blur, renormalisation, scaling.\<close>

definition finish_canvas :: "imglib \<Rightarrow> img \<Rightarrow> py_exception + tensor" where
  "finish_canvas L canvas =
     bindE (center_digit_by_mass L canvas) (\<lambda>canvas.
     bindE (cv2_GaussianBlur L canvas (3, 3) (1 / 2)) (\<lambda>canvas.
     bindE (renormalize canvas) (\<lambda>canvas.
       Inr (to_tensor canvas))))"

text \<open>Lines 234-315, after the early exit.\<close>

definition process_digit :: "imglib \<Rightarrow> img \<Rightarrow> img \<Rightarrow> py_exception + tensor" where
  "process_digit L img_array binary =
     bindE (close_gaps L binary) (\<lambda>binary.
       case extract_digit img_array binary of
         None \<Rightarrow> Inr zeros_1_28_28_1
       | Some digit \<Rightarrow> bindE (place_on_canvas L digit) (finish_canvas L))"

text \<open>The body of the \<open>try\<close>, lines 206-315.\<close>

definition preprocess_body :: "imglib \<Rightarrow> pil_image \<Rightarrow> py_exception + tensor" where
  "preprocess_body L pil =
     bindE (load_gray L pil) (\<lambda>img_array.
     bindE (correct_polarity L img_array) (\<lambda>img_array.
     bindE (binarize L img_array) (\<lambda>binary.
       if cv2_countNonZero binary < 10 then Inr zeros_1_28_28_1
       else process_digit L img_array binary)))"

text \<open>
  \<open>preprocess_for_mnist\<close>, lines 186-320: \<open>except Exception as e\<close> calls
  \<open>print(f"Preprocessing error: {e}")\<close> and then returns the zero array. An exception of
  that \<open>print\<close> is not caught by anything and reaches the caller.
\<close>

definition preprocess_for_mnist :: "imglib \<Rightarrow> pil_image \<Rightarrow> py_exception + tensor" where
  "preprocess_for_mnist L pil =
     (case preprocess_body L pil of
        Inl e \<Rightarrow> bindE (py_print L e) (\<lambda>u. Inr zeros_1_28_28_1)
      | Inr img_final \<Rightarrow> Inr img_final)"

text \<open>The standard output takes every message.\<close>

definition stdout_usable :: "imglib \<Rightarrow> bool" where
  "stdout_usable L = (\<forall>e. py_print L e = Inr ())"

subsection \<open>Shapes, and what the theorems ask of OpenCV\<close>

definition has_shape :: "'a list list \<Rightarrow> nat \<Rightarrow> nat \<Rightarrow> bool" where
  "has_shape a h w = (length a = h \<and> (\<forall>row\<in>set a. length row = w))"

text \<open>
  \<open>cv2.resize\<close> of the digit region to a size \<open>dsize = (width, height)\<close> with both sides
  from 1 to 20, by area or cubic interpolation, returns an array of that size. Nothing
  is asked for other sizes, where \<open>cv2.resize\<close> may raise.
\<close>

definition resize_gives_dsize :: "imglib \<Rightarrow> img \<Rightarrow> bool" where
  "resize_gives_dsize L digit =
     (\<forall>w h interp. 1 \<le> w \<and> w \<le> 20 \<and> 1 \<le> h \<and> h \<le> 20
        \<and> (interp = INTER_AREA \<or> interp = INTER_CUBIC) \<longrightarrow>
        (\<exists>r. cv2_resize L digit (w, h) interp = Inr r \<and> has_shape r (nat h) (nat w)))"

text \<open>\<open>cv2.warpAffine\<close> with \<open>dsize = (28, 28)\<close> and \<open>cv2.GaussianBlur\<close> return 28 x 28 arrays.\<close>

definition keeps_28x28 :: "imglib \<Rightarrow> bool" where
  "keeps_28x28 L =
     ((\<forall>c M c'. cv2_warpAffine L c M (28, 28) = Inr c' \<longrightarrow> has_shape c' 28 28) \<and>
      (\<forall>c k s c'. has_shape c 28 28 \<longrightarrow> cv2_GaussianBlur L c k s = Inr c' \<longrightarrow> has_shape c' 28 28))"

text \<open>
  \<open>cv2.warpAffine\<close> with the matrix \<open>[[1, 0, sx], [0, 1, sy]]\<close>, integer \<open>sx\<close> and \<open>sy\<close>,
  size (28, 28) and a constant border of 0: the pixel at (y, x) of the result is the one
  at (y - sy, x - sx) of the source, and 0 where the source has none.
\<close>

definition translate :: "img \<Rightarrow> int \<Rightarrow> int \<Rightarrow> img" where
  "translate src sx sy =
     map (\<lambda>y. map (\<lambda>x.
       if 0 \<le> int y - sy \<and> int y - sy < int (length src) \<and> 0 \<le> int x - sx
          \<and> int x - sx < int (length (src ! nat (int y - sy)))
       then src ! nat (int y - sy) ! nat (int x - sx) else 0) [0..<28]) [0..<28]"



text \<open>The contract of the result: dtype, shape (1, 28, 28, 1), values in [0, 1].\<close>

definition shape_1_28_28_1 :: "real list list list list \<Rightarrow> bool" where
  "shape_1_28_28_1 d =
     (length d = 1 \<and> (\<forall>plane\<in>set d. length plane = 28 \<and>
        (\<forall>row\<in>set plane. length row = 28 \<and> (\<forall>px\<in>set row. length px = 1))))"

definition values_in_unit_interval :: "real list list list list \<Rightarrow> bool" where
  "values_in_unit_interval d =
     (\<forall>plane\<in>set d. \<forall>row\<in>set plane. \<forall>px\<in>set row. \<forall>v\<in>set px. 0 \<le> v \<and> v \<le> 1)"

definition canonical_tensor :: "tensor \<Rightarrow> bool" where
  "canonical_tensor t =
     (t_dtype t = Float32 \<and> shape_1_28_28_1 (t_data t) \<and> values_in_unit_interval (t_data t))"

subsection \<open>A small instance of the library record\<close>

text \<open>
  A total instance, for concrete evaluations. Its histogram and its translation are the
  documented ones; the other operations are simple stand-ins (a fixed threshold at 127
  for Otsu's method, nearest-neighbour resizing, no blur).
\<close>

definition threshold_127 :: "img \<Rightarrow> img" where
  "threshold_127 a = map (map (\<lambda>p. if p > 127 then 255 else 0)) a"

definition resize_nearest :: "img \<Rightarrow> int \<times> int \<Rightarrow> img" where
  "resize_nearest a dsize =
     (let (w, h) = dsize; (sh, sw) = np_shape a
      in map (\<lambda>y. map (\<lambda>x. a ! (y * sh div nat h) ! (x * sw div nat w)) [0..<nat w]) [0..<nat h])"

definition simple_lib :: imglib where
  "simple_lib =
     \<lparr>pil_convert = (\<lambda>p m. Inr (p\<lparr>pil_mode := m\<rparr>)),
      np_array = (\<lambda>p. Inr [pil_bytes p]),
      cv2_calcHist = (\<lambda>a. Inr (map (\<lambda>v. count_list (concat a) (of_nat v)) [0..<256])),
      cv2_CLAHE_apply = (\<lambda>clip grid a. Inr a),
      cv2_threshold = (\<lambda>a thresh maxval flags. Inr (127, threshold_127 a)),
      cv2_adaptiveThreshold = (\<lambda>a maxval method flags block c. Inr (threshold_127 a)),
      cv2_connectedComponentsWithStats = (\<lambda>a connectivity. Inr (1, map (map (\<lambda>p. 0)) a, [])),
      cv2_getStructuringElement = (\<lambda>shape ksize. Inr [[1, 1], [1, 1]]),
      cv2_morphologyEx = (\<lambda>a op kernel. Inr a),
      cv2_resize = (\<lambda>a dsize interp. Inr (resize_nearest a dsize)),
      cv2_warpAffine = (\<lambda>a M dsize. Inr (translate a \<lfloor>M ! 0 ! 2\<rfloor> \<lfloor>M ! 1 ! 2\<rfloor>)),
      cv2_GaussianBlur = (\<lambda>a ksize sigma. Inr a),
      py_print = (\<lambda>e. Inr ())\<rparr>"

section \<open>model.py: activation capture\<close>

text \<open>
  A Keras model is seen through its named layers: \<open>base_model.get_layer(name).output\<close> is
  the value under \<open>name\<close>, and \<open>get_layer\<close> raises \<open>ValueError\<close> for an unknown name.
\<close>

definition get_layer :: "(string \<rightharpoonup> 'l) \<Rightarrow> string \<Rightarrow> py_exception + 'l" where
  "get_layer m name = (case m name of None \<Rightarrow> Inl ValueError | Some l \<Rightarrow> Inr l)"

text \<open>
  \<open>create_feature_extraction_model\<close>, lines 171-201. Only \<open>ValueError\<close> is caught. The
  feature model is its dictionary of outputs.
\<close>

definition create_feature_extraction_model ::
    "(string \<rightharpoonup> 'l) \<Rightarrow> py_exception + (string \<rightharpoonup> 'l)" where
  "create_feature_extraction_model base_model =
     bindE (case get_layer base_model ''conv3'' of
              Inr l \<Rightarrow> Inr l
            | Inl e \<Rightarrow> (if e = ValueError then get_layer base_model ''conv2'' else Inl e))
       (\<lambda>conv3_output.
     bindE (get_layer base_model ''conv1'') (\<lambda>conv1.
     bindE (get_layer base_model ''conv2'') (\<lambda>conv2.
     bindE (get_layer base_model ''dense1'') (\<lambda>dense1.
     bindE (get_layer base_model ''predictions'') (\<lambda>predictions.
       Inr [''conv1'' \<mapsto> conv1, ''conv2'' \<mapsto> conv2, ''conv3'' \<mapsto> conv3_output,
            ''dense1'' \<mapsto> dense1, ''predictions'' \<mapsto> predictions])))))"

text \<open>
  \<open>feature_model.predict\<close> evaluates every output of the dictionary on the input;
  \<open>run\<close> is the forward pass of one output. \<open>outputs[k]\<close> raises \<open>KeyError\<close>.
\<close>

definition predict :: "('l \<Rightarrow> 'x \<Rightarrow> 'a) \<Rightarrow> (string \<rightharpoonup> 'l) \<Rightarrow> 'x \<Rightarrow> (string \<rightharpoonup> 'a)" where
  "predict run feature_model input_image =
     (\<lambda>k. map_option (\<lambda>l. run l input_image) (feature_model k))"

definition dict_item :: "(string \<rightharpoonup> 'a) \<Rightarrow> string \<Rightarrow> py_exception + 'a" where
  "dict_item d k = (case d k of None \<Rightarrow> Inl KeyError | Some v \<Rightarrow> Inr v)"

text \<open>
  \<open>get_layer_activations\<close>, lines 204-226. The default of \<open>outputs.get\<close> is evaluated
  before the lookup.
\<close>

definition get_layer_activations ::
    "('l \<Rightarrow> 'x \<Rightarrow> 'a) \<Rightarrow> (string \<rightharpoonup> 'l) \<Rightarrow> 'x \<Rightarrow> py_exception + (string \<rightharpoonup> 'a)" where
  "get_layer_activations run feature_model input_image =
     (let outputs = predict run feature_model input_image in
      bindE (dict_item outputs ''conv1'') (\<lambda>conv1.
      bindE (dict_item outputs ''conv2'') (\<lambda>conv2.
      bindE (dict_item outputs ''conv2'') (\<lambda>fallback.
      bindE (Inr (case outputs ''conv3'' of Some v \<Rightarrow> v | None \<Rightarrow> fallback)) (\<lambda>conv3.
      bindE (dict_item outputs ''dense1'') (\<lambda>dense1.
      bindE (dict_item outputs ''predictions'') (\<lambda>predictions.
        Inr [''conv1'' \<mapsto> conv1, ''conv2'' \<mapsto> conv2, ''conv3'' \<mapsto> conv3,
             ''dense1'' \<mapsto> dense1, ''predictions'' \<mapsto> predictions])))))))"

text \<open>The two calls in sequence, as \<open>main.py\<close> makes them (lines 44 and 144).\<close>

definition capture_activations ::
    "('l \<Rightarrow> 'x \<Rightarrow> 'a) \<Rightarrow> (string \<rightharpoonup> 'l) \<Rightarrow> 'x \<Rightarrow> py_exception + (string \<rightharpoonup> 'a)" where
  "capture_activations run base_model input_image =
     bindE (create_feature_extraction_model base_model) (\<lambda>feature_model.
       get_layer_activations run feature_model input_image)"

section \<open>gradcam.py: Grad-CAM\<close>

subsection \<open>float32 arithmetic\<close>

text \<open>
  The tensors of the model are \<open>float32\<close>, the default of Keras. A normal \<open>float32\<close> value
  is a real \<open>n * 2 ^ (e - 23)\<close> with an integer \<open>n\<close> of 24 bits and an exponent \<open>e\<close> from
  -126 to 127. One addition or division returns the exact result rounded to the nearest
  such value, ties to the even \<open>n\<close> (IEEE 754, binary32): \<open>round_normal\<close>. An exact
  result below \<open>2 ^ -126\<close> in magnitude is rounded to a subnormal number or flushed to
  zero, depending on the thread that runs the kernel: it is the parameter \<open>uf\<close>. No
  operation of the normalisation can overflow.
\<close>

definition rne :: "real \<Rightarrow> int" where
  "rne x =
     (if x - of_int \<lfloor>x\<rfloor> < 1 / 2 then \<lfloor>x\<rfloor>
      else if x - of_int \<lfloor>x\<rfloor> > 1 / 2 then \<lfloor>x\<rfloor> + 1
      else if even \<lfloor>x\<rfloor> then \<lfloor>x\<rfloor> else \<lfloor>x\<rfloor> + 1)"

definition float32_exponent :: "real \<Rightarrow> int" where
  "float32_exponent x = \<lfloor>log 2 \<bar>x\<bar>\<rfloor>"

definition round_normal :: "real \<Rightarrow> real" where
  "round_normal x =
     of_int (rne (x / 2 powr of_int (float32_exponent x - 23)))
       * 2 powr of_int (float32_exponent x - 23)"

definition fl32 :: "(real \<Rightarrow> real) \<Rightarrow> real \<Rightarrow> real" where
  "fl32 uf x =
     (if x = 0 then 0
      else if \<bar>x\<bar> < 2 powr (- 126) then uf x
      else round_normal x)"

text \<open>Zero and the normal \<open>float32\<close> values.\<close>

definition is_float32 :: "real \<Rightarrow> bool" where
  "is_float32 x =
     (x = 0 \<or> (2 powr (- 126) \<le> \<bar>x\<bar> \<and> \<bar>x\<bar> < 2 powr 128 \<and> round_normal x = x))"

text \<open>What the theorems ask of the underflow: a result between 0 and \<open>2 ^ -126\<close>.\<close>

definition underflow_in_range :: "(real \<Rightarrow> real) \<Rightarrow> bool" where
  "underflow_in_range uf =
     (\<forall>x. 0 < x \<and> x < 2 powr (- 126) \<longrightarrow> 0 \<le> uf x \<and> uf x \<le> 2 powr (- 126))"

subsection \<open>Keras and TensorFlow, as parameters\<close>

text \<open>
  What Grad-CAM uses of a Keras model and of TensorFlow: the named layers with their
  outputs as functions of the model input (shape batch, height, width, channels), the
  model output (batch, classes), TensorFlow's reverse-mode gradient of the score of one
  class with respect to the output of one layer, the exception that TensorFlow raises
  for a column index out of bounds, the kernel \<open>tf.reduce_mean\<close> over the axes (0, 1, 2),
  the inner product of the matrix product \<open>conv_output @ pooled_grads[..., tf.newaxis]\<close>,
  whose order of accumulation in \<open>float32\<close> the source does not fix, and the result of
  an operation that underflows.
\<close>

type_synonym arr4 = "real list list list list"

record 'x keras_model =
  km_layers :: "string \<rightharpoonup> ('x \<Rightarrow> arr4)"
  km_output :: "'x \<Rightarrow> real list list"
  km_gradient :: "string \<Rightarrow> 'x \<Rightarrow> nat \<Rightarrow> arr4"
  tf_index_error :: "int \<Rightarrow> py_exception"
  tf_reduce_mean :: "arr4 \<Rightarrow> real list"
  tf_dot :: "real list \<Rightarrow> real list \<Rightarrow> real"
  tf_underflow :: "real \<Rightarrow> real"

record 'x GradCAM =
  gc_model :: "'x keras_model"
  gc_layer_name :: string
  gc_grad_model :: "'x \<Rightarrow> arr4 \<times> real list list"

text \<open>\<open>GradCAM.__init__\<close>, lines 21-39.\<close>

definition GradCAM_init :: "'x keras_model \<Rightarrow> string \<Rightarrow> py_exception + 'x GradCAM" where
  "GradCAM_init model layer_name =
     bindE (get_layer (km_layers model) layer_name) (\<lambda>layer_output.
       Inr \<lparr>gc_model = model, gc_layer_name = layer_name,
            gc_grad_model = (\<lambda>x. (layer_output x, km_output model x))\<rparr>)"

text \<open>
  \<open>predictions[:, class_idx]\<close> on a tensor with \<open>n\<close> columns: TensorFlow takes a negative
  index from the end, as Python does, and rejects an index outside \<open>-n .. n - 1\<close>. The
  exception depends on the index: \<open>InvalidArgumentError\<close> from the slice for an index that
  TensorFlow can represent, \<open>ValueError\<close> from the conversion of a larger one. It is the
  parameter \<open>err\<close>.
\<close>

definition tf_column_index :: "(int \<Rightarrow> py_exception) \<Rightarrow> nat \<Rightarrow> int \<Rightarrow> py_exception + nat" where
  "tf_column_index err n i =
     (if 0 \<le> i \<and> i < int n then Inr (nat i)
      else if - int n \<le> i \<and> i < 0 then Inr (nat (i + int n))
      else Inl (err i))"

text \<open>\<open>tf.argmax(predictions[0])\<close>\<close>

definition tf_argmax_row0 :: "real list list \<Rightarrow> py_exception + nat" where
  "tf_argmax_row0 predictions =
     (case predictions of
        [] \<Rightarrow> Inl InvalidArgumentError
      | row # rest \<Rightarrow> (case np_argmax row of Inl e \<Rightarrow> Inl InvalidArgumentError | Inr k \<Rightarrow> Inr k))"

text \<open>
  The two kernels in exact arithmetic: one mean per channel, and the inner product of
  the channels at one position with the pooled gradients. TensorFlow computes the same
  on values where no rounding occurs.
\<close>

definition reduce_mean_012 :: "arr4 \<Rightarrow> real list" where
  "reduce_mean_012 grads =
     (let vecs = concat (concat grads) in
      if vecs = [] then []
      else map (\<lambda>c. (\<Sum>v\<leftarrow>vecs. v ! c) / real (length vecs)) [0..<length (hd vecs)])"

definition weighted_sum :: "real list \<Rightarrow> real list \<Rightarrow> real" where
  "weighted_sum v pooled_grads = (\<Sum>c\<leftarrow>[0..<length pooled_grads]. v ! c * pooled_grads ! c)"

text \<open>
  \<open>conv_output @ pooled_grads[..., tf.newaxis]\<close>, of shape (height, width, 1): at each
  position the inner product of the channels with the pooled gradients.
\<close>

definition matmul_channels ::
    "(real list \<Rightarrow> real list \<Rightarrow> real) \<Rightarrow> real list list list \<Rightarrow> real list \<Rightarrow> real list list list" where
  "matmul_channels dot conv_output pooled_grads =
     map (map (\<lambda>v. [dot v pooled_grads])) conv_output"

text \<open>
  \<open>tf.squeeze\<close> removes every axis of size 1, so the rank of the heatmap depends on the
  height and the width of the layer.
\<close>

datatype heatmap = Scalar real | Vector "real list" | Matrix "real list list"

definition tf_squeeze :: "real list list list \<Rightarrow> heatmap" where
  "tf_squeeze a =
     (let m = map (map hd) a; (h, w) = np_shape m in
      if h = 1 \<and> w = 1 then Scalar (m ! 0 ! 0)
      else if h = 1 then Vector (m ! 0)
      else if w = 1 then Vector (map hd m)
      else Matrix m)"

fun hm_values :: "heatmap \<Rightarrow> real list" where
  "hm_values (Scalar v) = [v]"
| "hm_values (Vector vs) = vs"
| "hm_values (Matrix m) = concat m"

fun hm_map :: "(real \<Rightarrow> real) \<Rightarrow> heatmap \<Rightarrow> heatmap" where
  "hm_map f (Scalar v) = Scalar (f v)"
| "hm_map f (Vector vs) = Vector (map f vs)"
| "hm_map f (Matrix m) = Matrix (map (map f) m)"

text \<open>\<open>keras.backend.epsilon()\<close>, at its default.\<close>

definition keras_epsilon :: real where
  "keras_epsilon = 1 / 10000000"

text \<open>
  \<open>heatmap / (tf.reduce_max(heatmap) + epsilon)\<close>: the epsilon becomes a \<open>float32\<close>
  constant, the sum and each quotient are rounded. Nothing to divide in an empty map.
\<close>

definition hm_normalize :: "(real \<Rightarrow> real) \<Rightarrow> heatmap \<Rightarrow> heatmap" where
  "hm_normalize uf h =
     (case hm_values h of
        [] \<Rightarrow> h
      | v # vs \<Rightarrow>
          hm_map (\<lambda>x. fl32 uf (x / fl32 uf (fold max vs v + fl32 uf keras_epsilon))) h)"

text \<open>\<open>GradCAM.generate_heatmap\<close>, lines 41-85.\<close>

definition generate_heatmap :: "'x GradCAM \<Rightarrow> 'x \<Rightarrow> int option \<Rightarrow> py_exception + heatmap" where
  "generate_heatmap self input_image class_idx =
     (let (conv_output, predictions) = gc_grad_model self input_image in
      bindE (case class_idx of
               None \<Rightarrow> tf_argmax_row0 predictions
             | Some i \<Rightarrow> tf_column_index (tf_index_error (gc_model self))
                          (snd (np_shape predictions)) i) (\<lambda>class_idx.
        let grads = km_gradient (gc_model self) (gc_layer_name self) input_image class_idx;
            pooled_grads = tf_reduce_mean (gc_model self) grads
        in case conv_output of
             [] \<Rightarrow> Inl InvalidArgumentError
           | conv_output # rest \<Rightarrow>
               let heatmap = tf_squeeze
                     (matmul_channels (tf_dot (gc_model self)) conv_output pooled_grads);
                   heatmap = hm_map (\<lambda>v. max v 0) heatmap
               in Inr (hm_normalize (tf_underflow (gc_model self)) heatmap)))"

text \<open>
  \<open>generate_gradcam_explanation\<close>, lines 135-157. \<open>generate_overlay\<close> (resize, colour
  map, blend) is the parameter \<open>overlay\<close>.
\<close>

definition generate_gradcam_explanation ::
    "('x \<Rightarrow> heatmap \<Rightarrow> py_exception + 'o) \<Rightarrow> 'x keras_model \<Rightarrow> 'x \<Rightarrow> int option \<Rightarrow> string
       \<Rightarrow> py_exception + (heatmap \<times> 'o)" where
  "generate_gradcam_explanation overlay model input_image class_idx layer_name =
     bindE (GradCAM_init model layer_name) (\<lambda>gradcam.
     bindE (generate_heatmap gradcam input_image class_idx) (\<lambda>heatmap.
     bindE (overlay input_image heatmap) (\<lambda>overlay_image.
       Inr (heatmap, overlay_image))))"

section \<open>Concrete inputs\<close>



definition blank_pil :: pil_image where
  "blank_pil = \<lparr>pil_mode = ''L'', pil_size = (4, 1), pil_bytes = [0, 0, 0, 0]\<rparr>"

text \<open>
  A 2 x 5 image with one dark pixel. Every threshold from 0 to 199 separates it in the
  same way, Otsu's included, and nine of the ten pixels come out white. The second
  library raises in \<open>cv2.adaptiveThreshold\<close>, which makes the branch taken visible.
\<close>

definition gray_09 :: img where
  "gray_09 = [[0, 200, 200, 200, 200], [200, 200, 200, 200, 200]]"

definition otsu_09 :: img where
  "otsu_09 = [[0, 255, 255, 255, 255], [255, 255, 255, 255, 255]]"

definition no_fallback_lib :: imglib where
  "no_fallback_lib =
     simple_lib\<lparr>cv2_adaptiveThreshold := (\<lambda>a maxval method flags block c. Inl CvError)\<rparr>"

text \<open>A model saved before the third convolution was added; a layer is a number here.\<close>

definition old_model :: "string \<rightharpoonup> nat" where
  "old_model = [''conv1'' \<mapsto> 1, ''conv2'' \<mapsto> 2, ''dense1'' \<mapsto> 4, ''predictions'' \<mapsto> 5]"

text \<open>
  A model with one 2 x 2 layer of one channel and two classes. The gradient of the score
  of class 0 is 1 everywhere, that of class 1 is -1 everywhere. On these values the two
  kernels compute without rounding, and nothing underflows.
\<close>

definition index_error_64 :: "int \<Rightarrow> py_exception" where
  "index_error_64 i =
     (if - (2 ^ 63) \<le> i \<and> i < 2 ^ 63 - 1 then InvalidArgumentError else ValueError)"

definition neg_grads :: arr4 where
  "neg_grads = [[[[-1], [-1]], [[-1], [-1]]]]"

definition pos_grads :: arr4 where
  "pos_grads = [[[[1], [1]], [[1], [1]]]]"

definition tiny_model :: "unit keras_model" where
  "tiny_model =
     \<lparr>km_layers = [''conv2'' \<mapsto> (\<lambda>x. [[[[1], [2]], [[3], [4]]]])],
      km_output = (\<lambda>x. [[3 / 4, 1 / 4]]),
      km_gradient = (\<lambda>name x c. if c = 0 then pos_grads else neg_grads),
      tf_index_error = index_error_64,
      tf_reduce_mean = reduce_mean_012,
      tf_dot = weighted_sum,
      tf_underflow = (\<lambda>x. 0)\<rparr>"

text \<open>
  The same model with a layer whose largest value is 1/2, and with a layer of height 1.
\<close>

definition half_model :: "unit keras_model" where
  "half_model = tiny_model\<lparr>km_layers := [''conv2'' \<mapsto> (\<lambda>x. [[[[0], [0]], [[0], [1 / 2]]]])]\<rparr>"

definition flat_model :: "unit keras_model" where
  "flat_model =
     tiny_model\<lparr>km_layers := [''conv2'' \<mapsto> (\<lambda>x. [[[[1], [2]]]])],
       km_gradient := (\<lambda>name x c. [[[[1], [1]]]])\<rparr>"

definition tiny_cam :: "unit GradCAM" where
  "tiny_cam = \<lparr>gc_model = tiny_model, gc_layer_name = ''conv2'',
        gc_grad_model = (\<lambda>x. ([[[[1], [2]], [[3], [4]]]], [[3 / 4, 1 / 4]]))\<rparr>"

definition no_overlay :: "unit \<Rightarrow> heatmap \<Rightarrow> py_exception + unit" where
  "no_overlay x h = Inr ()"

text \<open>
  Sums weighted by the index, structurally: \<open>index_weighted k ws\<close> is the sum of
  \<open>(k + i) * ws ! i\<close>. The moments of an array are such sums over its rows.
\<close>

fun index_weighted :: "nat \<Rightarrow> nat list \<Rightarrow> nat" where
  "index_weighted k [] = 0"
| "index_weighted k (w # ws) = k * w + index_weighted (Suc k) ws"







section \<open>Auxiliary facts\<close>

lemma bindE_Inr [simp]: "bindE (Inr x) f = f x"
  by (simp add: bindE_def)

lemma bindE_Inl [simp]: "bindE (Inl e) f = Inl e"
  by (simp add: bindE_def)

lemma bindE_eq_Inr: "bindE m f = Inr y \<longleftrightarrow> (\<exists>x. m = Inr x \<and> f x = Inr y)"
  by (cases m) simp_all

lemma py_int_bounds:
  assumes "0 \<le> x" "x \<le> real_of_int n"
  shows "0 \<le> py_int x \<and> py_int x \<le> n"
  using assms by (simp add: py_int_def floor_le_iff le_floor_iff)

lemma new_dimensions_range:
  assumes "0 < digit_h" "0 < digit_w"
  shows "\<exists>new_h new_w. new_dimensions digit_h digit_w = Inr (new_h, new_w)
           \<and> 1 \<le> new_h \<and> new_h \<le> 20 \<and> 1 \<le> new_w \<and> new_w \<le> 20
           \<and> (if digit_h > digit_w then new_h = 20 else new_w = 20)"
proof (cases "digit_h > digit_w")
  case True
  have "0 \<le> 20 * (real digit_w / real digit_h)" by simp
  moreover have "20 * (real digit_w / real digit_h) \<le> real_of_int 20"
    using True assms by (simp add: divide_le_eq)
  ultimately have "py_int (20 * (real digit_w / real digit_h)) \<le> 20"
    using py_int_bounds by blast
  then show ?thesis using True assms
    by (simp add: new_dimensions_def target_size_def Let_def)
next
  case False
  have r: "real digit_w / real digit_h \<ge> 1" using False assms by (simp add: le_divide_eq)
  have "0 \<le> 20 / (real digit_w / real digit_h)" by simp
  moreover have "20 / (real digit_w / real digit_h) \<le> real_of_int 20"
    using r assms by (simp add: divide_le_eq)
  ultimately have "py_int (20 / (real digit_w / real digit_h)) \<le> 20"
    using py_int_bounds by blast
  then show ?thesis using False assms r
    by (auto simp add: new_dimensions_def target_size_def Let_def)
qed

lemma offsets_ok:
  assumes "1 \<le> new_h" "new_h \<le> 20" "1 \<le> new_w" "new_w \<le> 20"
  shows "4 \<le> fst (canvas_offsets new_h new_w) \<and> 4 \<le> snd (canvas_offsets new_h new_w)
     \<and> copy_region new_h new_w = (new_h, new_w)
     \<and> fst (canvas_offsets new_h new_w) + new_h \<le> 28
     \<and> snd (canvas_offsets new_h new_w) + new_w \<le> 28"
  using assms by (simp add: canvas_offsets_def copy_region_def) linarith

lemma np_shape_has_shape: "has_shape a h w \<Longrightarrow> 0 < h \<Longrightarrow> np_shape a = (h, w)"
  by (cases a) (auto simp: has_shape_def np_shape_def)

lemma np_slice_all: "int (length xs) = n \<Longrightarrow> np_slice 0 n xs = xs"
  by (auto simp: np_slice_def slice_bound_def Let_def)

lemma slices_all:
  assumes "has_shape r (nat h) (nat w)" "0 \<le> h" "0 \<le> w"
  shows "map (np_slice 0 w) (np_slice 0 h r) = r"
proof -
  have "np_slice 0 h r = r" using assms by (intro np_slice_all) (simp add: has_shape_def)
  moreover have "map (np_slice 0 w) r = r"
    using assms by (intro map_idI np_slice_all) (simp add: has_shape_def)
  ultimately show ?thesis by simp
qed

lemma assign_block_zero_canvas:
  assumes s: "has_shape src (nat h) (nat w)"
    and b: "0 \<le> y0" "1 \<le> h" "y0 + h \<le> 28" "0 \<le> x0" "1 \<le> w" "x0 + w \<le> 28"
  shows "np_assign_block (replicate 28 (replicate 28 0)) y0 (y0 + h) x0 (x0 + w) src =
     Inr (map (\<lambda>y. map (\<lambda>x.
           if nat y0 \<le> y \<and> y < nat (y0 + h) \<and> nat x0 \<le> x \<and> x < nat (x0 + w)
           then src ! (y - nat y0) ! (x - nat x0) else 0) [0..<28]) [0..<28])"
proof -
  have sh: "np_shape src = (nat h, nat w)" using s b by (intro np_shape_has_shape) auto
  have cs: "np_shape (replicate 28 (replicate 28 (0::uint8))) = (28, 28)"
    by (simp add: np_shape_def)
  have sb: "slice_bound y0 28 = y0" "slice_bound (y0 + h) 28 = y0 + h"
      "slice_bound x0 28 = x0" "slice_bound (x0 + w) 28 = x0 + w"
    using b by (simp_all add: slice_bound_def)
  have d: "nat (y0 + h) - nat y0 = nat h" "nat (x0 + w) - nat x0 = nat w"
    using b by simp_all
  have inner: "y - nat y0 = 0" if "nat h = Suc 0" "nat y0 \<le> y" "y < nat (y0 + h)" for y
    using that b by linarith
  have innerx: "x - nat x0 = 0" if "nat w = Suc 0" "nat x0 \<le> x" "x < nat (x0 + w)" for x
    using that b by linarith
  have row: "length (replicate 28 (replicate 28 (0::uint8)) ! y) = 28" if "y < 28" for y
    using that by simp
  have px: "replicate 28 (replicate 28 (0::uint8)) ! y ! x = 0" if "y < 28" "x < 28" for y x
    using that by simp
  show ?thesis
    unfolding np_assign_block_def cs sh Let_def prod.case
    apply (simp only: of_nat_numeral sb d simp_thms if_True length_replicate)
    apply (rule arg_cong [where f = Inr])
    apply (rule map_cong [OF refl])
    apply (simp only: set_upt atLeastLessThan_iff row)
    apply (rule map_cong [OF refl])
    apply (simp only: set_upt atLeastLessThan_iff)
    apply (simp add: px)
    apply (intro conjI impI)
    apply (simp_all add: inner innerx)
    done
qed

lemma simple_lib_resize: "resize_gives_dsize simple_lib d"
  by (auto simp add: resize_gives_dsize_def simple_lib_def resize_nearest_def has_shape_def
      split: prod.splits)

lemma fold_max_absorb: "\<forall>y\<in>set xs. y \<le> m \<Longrightarrow> fold max xs (m::'a::linorder) = m"
  by (induction xs) (simp_all add: max_absorb2)

lemma np_argmax_head: "\<forall>y\<in>set xs. y \<le> x \<Longrightarrow> np_argmax (x # xs) = Inr 0"
  by (simp add: np_argmax_def fold_max_absorb)

lemma blank_polarity: "correct_polarity simple_lib [[0, 0, 0, 0]] = Inr [[0, 0, 0, 0]]"
proof -
  let ?f = "\<lambda>v. count_list (concat [[0, 0, 0, 0 :: uint8]]) (of_nat v)"
  have u: "[0..<256] = 0 # [1..<256]" by (simp add: upt_conv_Cons)
  have h: "cv2_calcHist simple_lib [[0, 0, 0, 0]] = Inr (?f 0 # map ?f [1..<256])"
    unfolding simple_lib_def by (simp only: imglib.simps u list.map)
  have f0: "?f 0 = 4" by simp
  have "\<forall>y\<in>set (map ?f [1..<256]). y \<le> ?f 0"
    unfolding f0 using count_le_length [of "concat [[0, 0, 0, 0 :: uint8]]"] by auto
  then have "np_argmax (?f 0 # map ?f [1..<256]) = Inr 0" by (rule np_argmax_head)
  then show ?thesis unfolding correct_polarity_def h by simp
qed

lemma blank_binarize: "binarize simple_lib [[0, 0, 0, 0]] = Inr [[0, 0, 0, 0]]"
  by (simp add: binarize_def enhance_contrast_def adaptive_threshold_def otsu_failed_def
      white_ratio_def remove_small_components_def simple_lib_def threshold_127_def)

lemma threshold_gray_09:
  "cv2_threshold no_fallback_lib gray_09 0 255 (THRESH_BINARY + THRESH_OTSU) = Inr (127, otsu_09)"
  by (simp add: no_fallback_lib_def simple_lib_def threshold_127_def gray_09_def otsu_09_def)

lemma white_ratio_otsu_09: "white_ratio otsu_09 = Some (9 / 10)"
  by (simp add: white_ratio_def otsu_09_def)

lemma canonical_zeros: "canonical_tensor zeros_1_28_28_1"
  by (simp add: canonical_tensor_def zeros_1_28_28_1_def shape_1_28_28_1_def
      values_in_unit_interval_def)

lemma unat_uint8_le: "unat (p :: uint8) \<le> 255"
  using unsigned_less [of p, where 'a = nat] by simp

lemma uint8_real_le: "(unsigned (p :: uint8) :: real) \<le> 255"
proof -
  have "real (unat p) \<le> real 255" using unat_uint8_le [of p] of_nat_le_iff by blast
  then show ?thesis by simp
qed

lemma uint8_real_ge: "0 \<le> (unsigned (p :: uint8) :: real)"
proof -
  have "0 \<le> real (unat p)" by (rule of_nat_0_le_iff)
  then show ?thesis by simp
qed

lemma canonical_to_tensor: "has_shape c 28 28 \<Longrightarrow> canonical_tensor (to_tensor c)"
  using uint8_real_le uint8_real_ge
  by (auto simp add: canonical_tensor_def to_tensor_def shape_1_28_28_1_def
      values_in_unit_interval_def has_shape_def)

lemma assign_block_shape:
  assumes "np_assign_block c y0 y1 x0 x1 src = Inr c'" "has_shape c h w"
  shows "has_shape c' h w"
  using assms unfolding np_assign_block_def Let_def has_shape_def
  by (auto split: prod.splits if_splits)

lemma place_on_canvas_shape:
  assumes "place_on_canvas L digit = Inr c"
  shows "has_shape c 28 28"
proof -
  have z: "has_shape (replicate 28 (replicate 28 (0::uint8))) 28 28"
    by (simp add: has_shape_def)
  from assms show ?thesis
    unfolding place_on_canvas_def Let_def
    by (auto simp add: bindE_eq_Inr case_prod_beta dest: assign_block_shape [OF _ z])
qed

lemma center_shape:
  assumes "center_digit_by_mass L c = Inr c'" "has_shape c 28 28" "keeps_28x28 L"
  shows "has_shape c' 28 28"
  using assms unfolding center_digit_by_mass_def keeps_28x28_def Let_def
  by (auto split: option.splits prod.splits)

lemma renormalize_shape:
  assumes "renormalize c = Inr c'" "has_shape c h w"
  shows "has_shape c' h w"
  using assms unfolding renormalize_def
  by (auto simp add: bindE_eq_Inr has_shape_def split: if_splits)

lemma finish_canvas_canonical:
  assumes "finish_canvas L c = Inr t" "has_shape c 28 28" "keeps_28x28 L"
  shows "canonical_tensor t"
proof -
  from assms(1) obtain c1 c2 c3 where
    1: "center_digit_by_mass L c = Inr c1" and
    2: "cv2_GaussianBlur L c1 (3, 3) (1 / 2) = Inr c2" and
    3: "renormalize c2 = Inr c3" and t: "t = to_tensor c3"
    unfolding finish_canvas_def by (auto simp add: bindE_eq_Inr)
  have "has_shape c1 28 28" using center_shape [OF 1 assms(2,3)] .
  then have "has_shape c2 28 28" using 2 assms(3) unfolding keeps_28x28_def by blast
  then have "has_shape c3 28 28" using 3 by (rule renormalize_shape [rotated])
  then show ?thesis unfolding t by (rule canonical_to_tensor)
qed

lemma process_digit_canonical:
  assumes "process_digit L a b = Inr t" "keeps_28x28 L"
  shows "canonical_tensor t"
  using assms unfolding process_digit_def
  by (auto simp add: bindE_eq_Inr canonical_zeros split: option.splits
      dest: place_on_canvas_shape finish_canvas_canonical)

lemma preprocess_body_canonical:
  assumes "preprocess_body L pil = Inr t" "keeps_28x28 L"
  shows "canonical_tensor t"
  using assms unfolding preprocess_body_def
  by (auto simp add: bindE_eq_Inr canonical_zeros split: if_splits
      dest: process_digit_canonical)

lemma simple_lib_keeps: "keeps_28x28 simple_lib"
  by (auto simp add: keeps_28x28_def simple_lib_def translate_def has_shape_def)

section \<open>The preprocessing pipeline: results\<close>

text \<open>
  C1. Whatever the input image, what \<open>preprocess_for_mnist\<close> returns is an array of dtype
  \<open>float32\<close> and shape (1, 28, 28, 1) with every value in [0, 1]: on the path through
  the whole pipeline, on the early exits and after an exception. With a usable standard
  output it returns on each of these paths; the value of the body of the \<open>try\<close> is
  returned whatever the standard output. OpenCV is asked for one thing: that
  \<open>warpAffine\<close> with size (28, 28) and \<open>GaussianBlur\<close> on a 28 x 28 array return
  28 x 28 arrays.
\<close>

theorem output_is_canonical:
  assumes "keeps_28x28 L"
  shows "(stdout_usable L \<longrightarrow> (\<exists>t. preprocess_for_mnist L pil = Inr t \<and> canonical_tensor t))
     \<and> (\<forall>t. preprocess_for_mnist L pil = Inr t \<longrightarrow> canonical_tensor t)
     \<and> (\<forall>t. preprocess_body L pil = Inr t \<longrightarrow>
           preprocess_for_mnist L pil = Inr t \<and> canonical_tensor t)"
proof (cases "preprocess_body L pil")
  case (Inl e)
  then have f: "preprocess_for_mnist L pil = bindE (py_print L e) (\<lambda>u. Inr zeros_1_28_28_1)"
    by (simp add: preprocess_for_mnist_def)
  have "\<forall>t. preprocess_for_mnist L pil = Inr t \<longrightarrow> canonical_tensor t"
    unfolding f by (auto simp add: bindE_eq_Inr canonical_zeros)
  moreover have "stdout_usable L \<longrightarrow> preprocess_for_mnist L pil = Inr zeros_1_28_28_1"
    unfolding f by (simp add: stdout_usable_def)
  ultimately show ?thesis using Inl canonical_zeros by auto
next
  case (Inr t)
  then have "preprocess_for_mnist L pil = Inr t" by (simp add: preprocess_for_mnist_def)
  moreover have "canonical_tensor t" using Inr assms by (rule preprocess_body_canonical)
  ultimately show ?thesis using Inr by simp
qed

theorem output_is_canonical_witness:
  "keeps_28x28 simple_lib \<and> stdout_usable simple_lib
   \<and> (\<exists>t. preprocess_for_mnist simple_lib blank_pil = Inr t \<and> canonical_tensor t)"
proof -
  have u: "stdout_usable simple_lib" by (simp add: stdout_usable_def simple_lib_def)
  show ?thesis
    using output_is_canonical [OF simple_lib_keeps, of blank_pil] simple_lib_keeps u by simp
qed




text \<open>
  C4, as the code has it. The result of Otsu's threshold is kept exactly when its share
  of pixels above 0 lies in the closed interval from 0.01 to 0.9; otherwise the result is
  that of \<open>cv2.adaptiveThreshold\<close> with the Gaussian method, block size 11 and offset 2.
\<close>

theorem otsu_accepted_on_closed_interval:
  assumes "cv2_threshold L gray_img 0 255 (THRESH_BINARY + THRESH_OTSU) = Inr (retval, otsu)"
    and "white_ratio otsu = Some r"
  shows "adaptive_threshold L gray_img =
     (if 1 / 100 \<le> r \<and> r \<le> 9 / 10 then Inr otsu
      else cv2_adaptiveThreshold L gray_img 255 ADAPTIVE_THRESH_GAUSSIAN_C THRESH_BINARY 11 2)"
  using assms by (auto simp add: adaptive_threshold_def otsu_failed_def)

theorem otsu_accepted_on_closed_interval_witness:
  "cv2_threshold simple_lib [[0, 0, 0, 0]] 0 255 (THRESH_BINARY + THRESH_OTSU)
     = Inr (127, [[0, 0, 0, 0]])
   \<and> white_ratio [[0, 0, 0, 0]] = Some 0
   \<and> adaptive_threshold simple_lib [[0, 0, 0, 0]] =
       cv2_adaptiveThreshold simple_lib [[0, 0, 0, 0]] 255 ADAPTIVE_THRESH_GAUSSIAN_C
         THRESH_BINARY 11 2"
proof -
  have t: "cv2_threshold simple_lib [[0, 0, 0, 0]] 0 255 (THRESH_BINARY + THRESH_OTSU)
     = Inr (127, [[0, 0, 0, 0]])"
    by (simp add: simple_lib_def threshold_127_def)
  have w: "white_ratio [[0, 0, 0, 0]] = Some 0" by (simp add: white_ratio_def)
  show ?thesis using otsu_accepted_on_closed_interval [OF t w] t w by simp
qed

text \<open>
  C4, as stated, fails on the boundary: on \<open>gray_09\<close> the share of white pixels is
  exactly 0.9, which is not inside the open interval, and Otsu's result is kept.
\<close>

theorem otsu_open_interval_counterexample:
  "cv2_threshold no_fallback_lib gray_09 0 255 (THRESH_BINARY + THRESH_OTSU) = Inr (127, otsu_09)
   \<and> white_ratio otsu_09 = Some (9 / 10)
   \<and> \<not> ((1 / 100 :: real) < 9 / 10 \<and> (9 / 10 :: real) < 9 / 10)
   \<and> adaptive_threshold no_fallback_lib gray_09 = Inr otsu_09
   \<and> cv2_adaptiveThreshold no_fallback_lib gray_09 255 ADAPTIVE_THRESH_GAUSSIAN_C THRESH_BINARY 11 2
       \<noteq> Inr otsu_09"
proof -
  have a: "adaptive_threshold no_fallback_lib gray_09 = Inr otsu_09"
    by (simp add: adaptive_threshold_def threshold_gray_09 otsu_failed_def white_ratio_otsu_09)
  have b: "cv2_adaptiveThreshold no_fallback_lib gray_09 255 ADAPTIVE_THRESH_GAUSSIAN_C
      THRESH_BINARY 11 2 \<noteq> Inr otsu_09"
    by (simp add: no_fallback_lib_def)
  show ?thesis using a b threshold_gray_09 white_ratio_otsu_09 by simp
qed

text \<open>
  C5. When fewer than 10 pixels of the mask are above 0 after the noise removal,
  \<open>preprocess_for_mnist\<close> returns the zero array of shape (1, 28, 28, 1), and none of the
  later steps runs: the result is the same whatever the structuring element, the
  closing, the resizing, the warp and the blur would do.
\<close>

theorem early_exit_below_ten:
  assumes "load_gray L pil = Inr gray"
    and "correct_polarity L gray = Inr img_array"
    and "binarize L img_array = Inr binary"
    and "cv2_countNonZero binary < 10"
  shows "preprocess_for_mnist
           (L\<lparr>cv2_getStructuringElement := se, cv2_morphologyEx := mo, cv2_resize := rs,
              cv2_warpAffine := wa, cv2_GaussianBlur := gb\<rparr>) pil = Inr zeros_1_28_28_1"
proof -
  define L' where "L' = L\<lparr>cv2_getStructuringElement := se, cv2_morphologyEx := mo,
    cv2_resize := rs, cv2_warpAffine := wa, cv2_GaussianBlur := gb\<rparr>"
  have "load_gray L' pil = load_gray L pil"
    by (simp add: load_gray_def L'_def)
  moreover have "correct_polarity L' gray = correct_polarity L gray"
    by (simp add: correct_polarity_def L'_def)
  moreover have "adaptive_threshold L' g = adaptive_threshold L g" for g
    by (simp add: adaptive_threshold_def L'_def cong: if_cong)
  moreover have "remove_small_components L' b n = remove_small_components L b n" for b n
    by (simp add: remove_small_components_def L'_def)
  moreover have "enhance_contrast L' g = enhance_contrast L g" for g
    by (simp add: enhance_contrast_def L'_def)
  ultimately have "binarize L' img_array = binarize L img_array"
    by (simp add: binarize_def)
  moreover note \<open>load_gray L' pil = load_gray L pil\<close>
    \<open>correct_polarity L' gray = correct_polarity L gray\<close>
  ultimately have "preprocess_body L' pil = Inr zeros_1_28_28_1"
    using assms by (simp add: preprocess_body_def)
  then show ?thesis
    unfolding L'_def by (simp add: preprocess_for_mnist_def)
qed

theorem early_exit_below_ten_witness:
  "load_gray simple_lib blank_pil = Inr [[0, 0, 0, 0]]
   \<and> correct_polarity simple_lib [[0, 0, 0, 0]] = Inr [[0, 0, 0, 0]]
   \<and> binarize simple_lib [[0, 0, 0, 0]] = Inr [[0, 0, 0, 0]]
   \<and> cv2_countNonZero [[0, 0, 0, 0]] < 10
   \<and> preprocess_for_mnist
        (simple_lib\<lparr>cv2_getStructuringElement := (\<lambda>s k. Inl CvError),
           cv2_morphologyEx := (\<lambda>a op k. Inl CvError), cv2_resize := (\<lambda>a d i. Inl CvError),
           cv2_warpAffine := (\<lambda>a M d. Inl CvError),
           cv2_GaussianBlur := (\<lambda>a k s. Inl CvError)\<rparr>) blank_pil = Inr zeros_1_28_28_1"
proof -
  have l: "load_gray simple_lib blank_pil = Inr [[0, 0, 0, 0]]"
    by (simp add: load_gray_def simple_lib_def blank_pil_def)
  have c: "cv2_countNonZero [[0, 0, 0, 0]] < 10" by (simp add: cv2_countNonZero_def)
  show ?thesis
    using early_exit_below_ten [OF l blank_polarity blank_binarize c] l blank_polarity
      blank_binarize c by simp
qed

text \<open>
  C10. A digit region of positive height and width is resized to dimensions between 1
  and 20, the longer side to exactly 20; both offsets on the canvas are at least 4, the
  copied region is the whole resized digit, and every pixel of the resized digit is on
  the 28 x 28 canvas, at its offset. \<open>cv2.resize\<close> is asked to return the size requested
  for sizes with both sides from 1 to 20.
\<close>

theorem resize_fits_canvas:
  assumes shape: "np_shape digit = (digit_h, digit_w)"
    and pos: "0 < digit_h" "0 < digit_w"
    and resize: "resize_gives_dsize L digit"
  shows "\<exists>new_h new_w r canvas.
           new_dimensions digit_h digit_w = Inr (new_h, new_w)
         \<and> 1 \<le> new_h \<and> new_h \<le> 20 \<and> 1 \<le> new_w \<and> new_w \<le> 20
         \<and> (if digit_h > digit_w then new_h = 20 else new_w = 20)
         \<and> 4 \<le> fst (canvas_offsets new_h new_w) \<and> 4 \<le> snd (canvas_offsets new_h new_w)
         \<and> copy_region new_h new_w = (new_h, new_w)
         \<and> cv2_resize L digit (new_w, new_h)
               (if int digit_h > new_h \<or> int digit_w > new_w then INTER_AREA else INTER_CUBIC)
             = Inr r
         \<and> has_shape r (nat new_h) (nat new_w)
         \<and> place_on_canvas L digit = Inr canvas
         \<and> has_shape canvas 28 28
         \<and> (\<forall>i<nat new_h. \<forall>j<nat new_w.
               canvas ! (nat (fst (canvas_offsets new_h new_w)) + i)
                      ! (nat (snd (canvas_offsets new_h new_w)) + j) = r ! i ! j)"
proof -
  obtain new_h new_w where nd: "new_dimensions digit_h digit_w = Inr (new_h, new_w)"
    and rng: "1 \<le> new_h" "new_h \<le> 20" "1 \<le> new_w" "new_w \<le> 20"
    and longer: "if digit_h > digit_w then new_h = 20 else new_w = 20"
    using new_dimensions_range [OF pos] by blast
  define interp where
    "interp = (if int digit_h > new_h \<or> int digit_w > new_w then INTER_AREA else INTER_CUBIC)"
  have "interp = INTER_AREA \<or> interp = INTER_CUBIC" by (simp add: interp_def)
  then obtain r where r: "cv2_resize L digit (new_w, new_h) interp = Inr r"
    and rs: "has_shape r (nat new_h) (nat new_w)"
    using resize rng unfolding resize_gives_dsize_def by blast
  obtain yo xo where off: "canvas_offsets new_h new_w = (yo, xo)" by (cases "canvas_offsets new_h new_w")
  have o: "4 \<le> yo" "4 \<le> xo" "copy_region new_h new_w = (new_h, new_w)"
      "yo + new_h \<le> 28" "xo + new_w \<le> 28"
    using offsets_ok [OF rng] off by simp_all
  define canvas where "canvas = map (\<lambda>y. map (\<lambda>x.
           if nat yo \<le> y \<and> y < nat (yo + new_h) \<and> nat xo \<le> x \<and> x < nat (xo + new_w)
           then r ! (y - nat yo) ! (x - nat xo) else (0::uint8)) [0..<28]) [0..<28]"
  have sl: "map (np_slice 0 new_w) (np_slice 0 new_h r) = r"
    using rs rng by (intro slices_all) auto
  have ab: "np_assign_block (replicate 28 (replicate 28 0)) yo (yo + new_h) xo (xo + new_w) r
      = Inr canvas"
    unfolding canvas_def using rs rng o by (intro assign_block_zero_canvas) auto
  have pc: "place_on_canvas L digit = Inr canvas"
    unfolding place_on_canvas_def shape prod.case nd bindE_Inr Let_def
    using r ab by (simp add: interp_def off o sl)
  have cs: "has_shape canvas 28 28" by (simp add: canvas_def has_shape_def)
  have px: "canvas ! (nat yo + i) ! (nat xo + j) = r ! i ! j"
    if "i < nat new_h" "j < nat new_w" for i j
  proof -
    have "nat yo + i < 28" "nat xo + j < 28" using that o rng by linarith+
    then show ?thesis using that o rng by (simp add: canvas_def nat_add_distrib)
  qed
  have offs: "fst (canvas_offsets new_h new_w) = yo" "snd (canvas_offsets new_h new_w) = xo"
    by (simp_all add: off)
  show ?thesis
    apply (rule exI [of _ new_h], rule exI [of _ new_w], rule exI [of _ r], rule exI [of _ canvas])
    apply (intro conjI)
    subgoal by (rule nd)
    subgoal by (rule rng)
    subgoal by (rule rng)
    subgoal by (rule rng)
    subgoal by (rule rng)
    subgoal by (rule longer)
    subgoal unfolding offs by (rule o)
    subgoal unfolding offs by (rule o)
    subgoal by (rule o)
    subgoal using r unfolding interp_def .
    subgoal by (rule rs)
    subgoal by (rule pc)
    subgoal by (rule cs)
    subgoal unfolding offs using px by blast
    done
qed

theorem resize_fits_canvas_witness:
  "np_shape [[255], [255 :: uint8]] = (2, 1) \<and> (0::nat) < 2 \<and> (0::nat) < 1
   \<and> resize_gives_dsize simple_lib [[255], [255]]
   \<and> (\<exists>new_h new_w canvas. new_dimensions 2 1 = Inr (new_h, new_w)
         \<and> new_h = 20 \<and> 1 \<le> new_w \<and> new_w \<le> 20
         \<and> place_on_canvas simple_lib [[255], [255]] = Inr canvas \<and> has_shape canvas 28 28)"
proof -
  have s: "np_shape [[255], [255 :: uint8]] = (2, 1)" by (simp add: np_shape_def)
  have r: "resize_gives_dsize simple_lib [[255], [255]]" by (rule simple_lib_resize)
  from resize_fits_canvas [OF s _ _ r] show ?thesis using s r by auto
qed

section \<open>Activation capture: results\<close>

lemma create_feature_extraction_model_eq:
  assumes "base_model ''conv1'' = Some l1" "base_model ''conv2'' = Some l2"
    and "base_model ''dense1'' = Some ld" "base_model ''predictions'' = Some lp"
  shows "create_feature_extraction_model base_model =
     Inr [''conv1'' \<mapsto> l1, ''conv2'' \<mapsto> l2,
          ''conv3'' \<mapsto> (case base_model ''conv3'' of None \<Rightarrow> l2 | Some l3 \<Rightarrow> l3),
          ''dense1'' \<mapsto> ld, ''predictions'' \<mapsto> lp]"
proof (cases "base_model ''conv3''")
  case None
  then show ?thesis
    unfolding create_feature_extraction_model_def get_layer_def assms
    by (simp only: option.case sum.case bindE_Inr if_True simp_thms)
next
  case (Some l3)
  then show ?thesis
    unfolding create_feature_extraction_model_def get_layer_def assms
    by (simp only: option.case sum.case bindE_Inr if_True simp_thms)
qed

lemma get_layer_activations_eq:
  assumes "fm ''conv1'' = Some l1" "fm ''conv2'' = Some l2" "fm ''conv3'' = Some l3"
    and "fm ''dense1'' = Some ld" "fm ''predictions'' = Some lp"
  shows "get_layer_activations run fm x =
     Inr [''conv1'' \<mapsto> run l1 x, ''conv2'' \<mapsto> run l2 x, ''conv3'' \<mapsto> run l3 x,
          ''dense1'' \<mapsto> run ld x, ''predictions'' \<mapsto> run lp x]"
  unfolding get_layer_activations_def predict_def dict_item_def Let_def assms
  by (simp only: option.case option.map bindE_Inr)

lemma five_keys:
  "[''conv1'' \<mapsto> a, ''conv2'' \<mapsto> b, ''conv3'' \<mapsto> c, ''dense1'' \<mapsto> d, ''predictions'' \<mapsto> e] ''conv1'' = Some a"
  "[''conv1'' \<mapsto> a, ''conv2'' \<mapsto> b, ''conv3'' \<mapsto> c, ''dense1'' \<mapsto> d, ''predictions'' \<mapsto> e] ''conv2'' = Some b"
  "[''conv1'' \<mapsto> a, ''conv2'' \<mapsto> b, ''conv3'' \<mapsto> c, ''dense1'' \<mapsto> d, ''predictions'' \<mapsto> e] ''conv3'' = Some c"
  "[''conv1'' \<mapsto> a, ''conv2'' \<mapsto> b, ''conv3'' \<mapsto> c, ''dense1'' \<mapsto> d, ''predictions'' \<mapsto> e] ''dense1'' = Some d"
  "[''conv1'' \<mapsto> a, ''conv2'' \<mapsto> b, ''conv3'' \<mapsto> c, ''dense1'' \<mapsto> d, ''predictions'' \<mapsto> e] ''predictions'' = Some e"
  by simp_all

lemma five_keys_dom:
  "dom [''conv1'' \<mapsto> a, ''conv2'' \<mapsto> b, ''conv3'' \<mapsto> c, ''dense1'' \<mapsto> d, ''predictions'' \<mapsto> e]
     = {''predictions'', ''dense1'', ''conv3'', ''conv2'', ''conv1''}"
  by (simp only: dom_fun_upd option.simps if_False dom_empty)

lemma set5_reorder: "{e, d, c, b, a} = {a, b, c, d, e}"
  by blast

lemma old_model_layers:
  "old_model ''conv1'' = Some 1" "old_model ''conv2'' = Some 2"
  "old_model ''dense1'' = Some 4" "old_model ''predictions'' = Some 5"
  "old_model ''conv3'' = None"
  by (simp_all add: old_model_def)

text \<open>
  C8. For a model with the layers conv1, conv2, dense1 and predictions, the activation
  capture returns a dictionary with exactly the five keys conv1, conv2, conv3, dense1 and
  predictions. Without a layer conv3 in the model, the value under conv3 is the output
  captured for conv2; with one, it is the output of that layer.
\<close>

theorem activations_conv3_fallback:
  assumes "base_model ''conv1'' = Some l1" "base_model ''conv2'' = Some l2"
    and "base_model ''dense1'' = Some ld" "base_model ''predictions'' = Some lp"
  shows "\<exists>acts. capture_activations run base_model x = Inr acts
     \<and> dom acts = {''conv1'', ''conv2'', ''conv3'', ''dense1'', ''predictions''}
     \<and> acts ''conv1'' = Some (run l1 x) \<and> acts ''conv2'' = Some (run l2 x)
     \<and> acts ''dense1'' = Some (run ld x) \<and> acts ''predictions'' = Some (run lp x)
     \<and> (base_model ''conv3'' = None \<longrightarrow> acts ''conv3'' = acts ''conv2'')
     \<and> (\<forall>l3. base_model ''conv3'' = Some l3 \<longrightarrow> acts ''conv3'' = Some (run l3 x))"
proof -
  define l3 where "l3 = (case base_model ''conv3'' of None \<Rightarrow> l2 | Some l \<Rightarrow> l)"
  define fm where "fm = [''conv1'' \<mapsto> l1, ''conv2'' \<mapsto> l2, ''conv3'' \<mapsto> l3,
          ''dense1'' \<mapsto> ld, ''predictions'' \<mapsto> lp]"
  define acts where "acts = [''conv1'' \<mapsto> run l1 x, ''conv2'' \<mapsto> run l2 x,
     ''conv3'' \<mapsto> run l3 x, ''dense1'' \<mapsto> run ld x, ''predictions'' \<mapsto> run lp x]"
  have c: "create_feature_extraction_model base_model = Inr fm"
    unfolding fm_def l3_def by (rule create_feature_extraction_model_eq [OF assms])
  have g: "get_layer_activations run fm x = Inr acts"
    unfolding acts_def fm_def by (rule get_layer_activations_eq [OF five_keys])
  have r: "capture_activations run base_model x = Inr acts"
    unfolding capture_activations_def c bindE_Inr by (rule g)
  have d: "dom acts = {''conv1'', ''conv2'', ''conv3'', ''dense1'', ''predictions''}"
    unfolding acts_def five_keys_dom by (rule set5_reorder)
  have v: "acts ''conv1'' = Some (run l1 x)" "acts ''conv2'' = Some (run l2 x)"
    "acts ''conv3'' = Some (run l3 x)"
    "acts ''dense1'' = Some (run ld x)" "acts ''predictions'' = Some (run lp x)"
    unfolding acts_def by (rule five_keys)+
  have n: "base_model ''conv3'' = None \<longrightarrow> acts ''conv3'' = acts ''conv2''"
    unfolding v l3_def by simp
  have s: "\<forall>l. base_model ''conv3'' = Some l \<longrightarrow> acts ''conv3'' = Some (run l x)"
    unfolding v l3_def by simp
  from r d v(1,2,4,5) n s show ?thesis
    by (intro exI [of _ acts] conjI)
qed

theorem activations_conv3_fallback_witness:
  "old_model ''conv1'' = Some 1 \<and> old_model ''conv2'' = Some 2 \<and> old_model ''dense1'' = Some 4
   \<and> old_model ''predictions'' = Some 5 \<and> old_model ''conv3'' = None
   \<and> (\<exists>acts. capture_activations (\<lambda>l x. l * x) old_model (10::nat) = Inr acts
        \<and> acts ''conv3'' = Some 20 \<and> acts ''conv2'' = Some 20)"
proof -
  obtain acts where a: "capture_activations (\<lambda>l x. l * x) old_model (10::nat) = Inr acts"
    and c2: "acts ''conv2'' = Some (2 * 10)"
    and c3: "old_model ''conv3'' = None \<longrightarrow> acts ''conv3'' = acts ''conv2''"
    using activations_conv3_fallback [OF old_model_layers(1-4), of "\<lambda>l x. l * x" 10]
    by (elim exE conjE)
  have "acts ''conv3'' = Some 20" "acts ''conv2'' = Some 20"
    using c2 c3 old_model_layers(5) by simp_all
  then have "\<exists>acts. capture_activations (\<lambda>l x. l * x) old_model (10::nat) = Inr acts
        \<and> acts ''conv3'' = Some 20 \<and> acts ''conv2'' = Some 20"
    using a by (intro exI [of _ acts] conjI)
  then show ?thesis using old_model_layers by (intro conjI)
qed

section \<open>Mass centring: results\<close>



lemma index_weighted_replicate0 [simp]: "index_weighted k (replicate n 0) = 0"
  by (induction n arbitrary: k) simp_all









































end
